theory Spec2Isabelle
  imports Main "HOL-Library.List_Lexorder" "HOL-Library.Char_ord"
begin

section \<open>Strings: the two library functions the enforcer uses\<close>

text \<open>
  Go's \<^verbatim>\<open>strings.Split(s, sep)\<close> for a one-byte separator: the pieces of \<open>s\<close> between
  the occurrences of \<open>sep\<close>. The result is never empty: a string without the separator
  (the empty string too) gives the one-element list holding it.
\<close>

fun Split :: "string \<Rightarrow> char \<Rightarrow> string list" where
  "Split [] sep = [[]]"
| "Split (c # cs) sep =
     (if c = sep then [] # Split cs sep
      else (case Split cs sep of
              [] \<Rightarrow> [[c]]
            | w # ws \<Rightarrow> (c # w) # ws))"

text \<open>Go's \<^verbatim>\<open>strings.Join(elems, sep)\<close>.\<close>

fun Join :: "string list \<Rightarrow> string \<Rightarrow> string" where
  "Join [] sep = []"
| "Join [x] sep = x"
| "Join (x # y # ys) sep = x @ sep @ Join (y # ys) sep"

section \<open>Data model\<close>

text \<open>A label matcher of the Prometheus \<^verbatim>\<open>labels\<close> package.\<close>

datatype MatchType = MatchEqual | MatchNotEqual | MatchRegexp | MatchNotRegexp

record Matcher =
  Name :: string
  Type :: MatchType
  Value :: string

text \<open>
  The parsed expression. The enforcer looks at vector selectors only, each with its list
  of label matchers; every other node of the parser's tree is a \<open>Node\<close> with its own
  text (operator, function name, range, ...) and its children in the order
  \<^verbatim>\<open>parser.Inspect\<close> visits them.
\<close>

datatype Expr =
    VectorSelector "Matcher list"
  | Node string "Expr list"

text \<open>
  The tenant set is a Go \<^verbatim>\<open>map[string]bool\<close>. It is kept as an association list: the
  order of the list is the order in which the runtime iterates over the map, which the
  language leaves open. Membership is the presence of the key (\<^verbatim>\<open>_, ok := tl[ql]\<close>),
  whatever the stored boolean.
\<close>

type_synonym TenantSet = "(string \<times> bool) list"

record Config =
  TenantLabel :: string
  LokiURL :: string
  LokiUseMutualTLS :: bool
  ThanosURL :: string
  ThanosUseMutualTLS :: bool

text \<open>
  Errors are values. \<open>UserNotAllowed q\<close> is
  \<^verbatim>\<open>fmt.Errorf("user not allowed with namespace %s", q)\<close>; \<open>IllegalLabelMatcher\<close> is the
  error of the label enforcer on a conflicting matcher; \<open>IndexOutOfRange\<close> is the run-time
  panic of an index beyond the end of a slice.
\<close>

datatype error =
    ParseError string
  | UserNotAllowed string
  | IllegalLabelMatcher Matcher Matcher
  | IndexOutOfRange

fun Error :: "error \<Rightarrow> string" where
  "Error (ParseError msg) = msg"
| "Error (UserNotAllowed q) = ''user not allowed with namespace '' @ q"
| "Error (IllegalLabelMatcher m t) = ''label matcher value conflicts with injected value''"
| "Error IndexOutOfRange = ''index out of range''"

section \<open>enforcer\_promql.go\<close>

text \<open>
  \<^verbatim>\<open>extractLabelsAndValues\<close>: \<^verbatim>\<open>parser.Inspect\<close> visits the nodes in pre-order and the
  callback stores \<^verbatim>\<open>l[matcher.Name] = matcher.Value\<close> for every matcher of every vector
  selector; a later store under the same name overwrites the earlier one. The callback
  never returns an error, and neither does the function.
\<close>

definition storeMatcher :: "Matcher \<Rightarrow> (string \<rightharpoonup> string) \<Rightarrow> (string \<rightharpoonup> string)" where
  "storeMatcher matcher l = l(Name matcher \<mapsto> Value matcher)"

fun Inspect :: "Expr \<Rightarrow> (string \<rightharpoonup> string) \<Rightarrow> (string \<rightharpoonup> string)" where
  "Inspect (VectorSelector ms) l = fold storeMatcher ms l"
| "Inspect (Node k cs) l = fold Inspect cs l"

definition extractLabelsAndValues :: "Expr \<Rightarrow> error + (string \<rightharpoonup> string)" where
  "extractLabelsAndValues expr = Inr (Inspect expr Map.empty)"

text \<open>
  Modelled from the spec: \<^verbatim>\<open>MapKeysToArray\<close> is not among the sources. It returns the keys
  of the map ("the effective tenant set is the full TenantSet"), here in the map's
  iteration order.
\<close>

definition MapKeysToArray :: "TenantSet \<Rightarrow> string list" where
  "MapKeysToArray tls = map fst tls"

text \<open>
  \<^verbatim>\<open>checkLabels\<close>: a missing key reads as the empty string, as a Go map does. The loop
  returns at the first piece that is not a key of \<open>tls\<close> (the source's \<^verbatim>\<open>tl\<close>).
\<close>

definition checkLabels :: "Config \<Rightarrow> (string \<rightharpoonup> string) \<Rightarrow> TenantSet \<Rightarrow> bool \<times> string list" where
  "checkLabels cfg l tls =
     (let qls = Split (case l (TenantLabel cfg) of None \<Rightarrow> [] | Some v \<Rightarrow> v) (CHR ''|'')
      in case find (\<lambda>ql. map_of tls ql = None) qls of
           Some ql \<Rightarrow> (False, [ql])
         | None \<Rightarrow> (True, qls))"

definition enforceLabels :: "Config \<Rightarrow> (string \<rightharpoonup> string) \<Rightarrow> TenantSet \<Rightarrow> error + string list" where
  "enforceLabels cfg l tls =
     (case l (TenantLabel cfg) of
        Some _ \<Rightarrow>
          (case checkLabels cfg l tls of
             (ok, tenantLabels) \<Rightarrow>
               if \<not> ok then
                 (case tenantLabels of
                    [] \<Rightarrow> Inl IndexOutOfRange
                  | q # _ \<Rightarrow> Inl (UserNotAllowed q))
               else Inr tenantLabels)
      | None \<Rightarrow> Inr (MapKeysToArray tls))"

text \<open>
  \<^verbatim>\<open>createEnforcer\<close> builds the matcher and hands it to the label enforcer with
  \<^verbatim>\<open>errorOnReplace = true\<close>. The enforcer holds this one matcher.
\<close>

record Enforcer =
  errorOnReplace :: bool
  labelMatcher :: Matcher

definition createEnforcer :: "Config \<Rightarrow> string list \<Rightarrow> Enforcer" where
  "createEnforcer cfg tenantLabels =
     (let matchType = (if length tenantLabels > 1 then MatchRegexp else MatchEqual)
      in \<lparr>errorOnReplace = True,
          labelMatcher = \<lparr>Name = TenantLabel cfg, Type = matchType,
                          Value = Join tenantLabels ''|''\<rparr>\<rparr>)"

text \<open>
  Modelled from the spec: the label enforcer, the \<^verbatim>\<open>injectproxy\<close> package of
  prom-label-proxy, is not among the sources. At every vector selector the enforcement
  matcher is added, or takes the place of the matchers of the same name, and the other
  matchers are kept as they are and in their order. With \<^verbatim>\<open>errorOnReplace\<close>, which
  \<^verbatim>\<open>createEnforcer\<close> sets, a matcher of that name that differs from the enforcement
  matcher is an error.
\<close>

primrec EnforceTargets :: "Enforcer \<Rightarrow> Matcher list \<Rightarrow> error + Matcher list" where
  "EnforceTargets ms [] = Inr []"
| "EnforceTargets ms (target # targets) =
     (if Name target = Name (labelMatcher ms) then
        (if errorOnReplace ms \<and> labelMatcher ms \<noteq> target
         then Inl (IllegalLabelMatcher (labelMatcher ms) target)
         else EnforceTargets ms targets)
      else (case EnforceTargets ms targets of
              Inl err \<Rightarrow> Inl err
            | Inr res \<Rightarrow> Inr (target # res)))"

definition EnforceMatchers :: "Enforcer \<Rightarrow> Matcher list \<Rightarrow> error + Matcher list" where
  "EnforceMatchers ms targets =
     (case EnforceTargets ms targets of
        Inl err \<Rightarrow> Inl err
      | Inr res \<Rightarrow> Inr (res @ [labelMatcher ms]))"

fun EnforceNode :: "Enforcer \<Rightarrow> Expr \<Rightarrow> error + Expr"
  and EnforceNodes :: "Enforcer \<Rightarrow> Expr list \<Rightarrow> error + Expr list" where
  "EnforceNode ms (VectorSelector lms) =
     (case EnforceMatchers ms lms of
        Inl err \<Rightarrow> Inl err
      | Inr res \<Rightarrow> Inr (VectorSelector res))"
| "EnforceNode ms (Node k cs) =
     (case EnforceNodes ms cs of
        Inl err \<Rightarrow> Inl err
      | Inr cs' \<Rightarrow> Inr (Node k cs'))"
| "EnforceNodes ms [] = Inr []"
| "EnforceNodes ms (c # cs) =
     (case EnforceNode ms c of
        Inl err \<Rightarrow> Inl err
      | Inr c' \<Rightarrow>
          (case EnforceNodes ms cs of
             Inl err \<Rightarrow> Inl err
           | Inr cs' \<Rightarrow> Inr (c' # cs')))"

text \<open>
  \<^verbatim>\<open>promqlEnforcer\<close>. The parser's \<^verbatim>\<open>ParseExpr\<close> and the expression's \<^verbatim>\<open>String\<close> are
  parameters; the logging calls have no effect on the result.
\<close>

definition promqlEnforcer ::
  "(string \<Rightarrow> error + Expr) \<Rightarrow> (Expr \<Rightarrow> string) \<Rightarrow> Config \<Rightarrow> string \<Rightarrow> TenantSet
     \<Rightarrow> error + string" where
  "promqlEnforcer ParseExpr String cfg query tls =
     (case ParseExpr query of
        Inl err \<Rightarrow> Inl err
      | Inr expr \<Rightarrow>
          (case extractLabelsAndValues expr of
             Inl err \<Rightarrow> Inl err
           | Inr l \<Rightarrow>
               (case enforceLabels cfg l tls of
                  Inl err \<Rightarrow> Inl err
                | Inr tenantLabels \<Rightarrow>
                    (case EnforceNode (createEnforcer cfg tenantLabels) expr of
                       Inl err \<Rightarrow> Inl err
                     | Inr expr' \<Rightarrow> Inr (String expr')))))"

text \<open>
  The matchers of an expression in the order \<^verbatim>\<open>parser.Inspect\<close> meets them, and the same
  expression with the type of every matcher replaced.
\<close>

fun matchers :: "Expr \<Rightarrow> Matcher list" where
  "matchers (VectorSelector ms) = ms"
| "matchers (Node k cs) = concat (map matchers cs)"

fun retype :: "(Matcher \<Rightarrow> MatchType) \<Rightarrow> Expr \<Rightarrow> Expr" where
  "retype f (VectorSelector ms) = VectorSelector (map (\<lambda>m. m\<lparr>Type := f m\<rparr>) ms)"
| "retype f (Node k cs) = Node k (map (retype f) cs)"



section \<open>routes.go\<close>

record Route =
  Url :: string
  MatchWord :: string

definition routes :: "Route list" where
  "routes =
     [\<lparr>Url = ''/api/v1/query'', MatchWord = ''query''\<rparr>,
      \<lparr>Url = ''/api/v1/query_range'', MatchWord = ''query''\<rparr>,
      \<lparr>Url = ''/api/v1/label/{name}/values'', MatchWord = ''query''\<rparr>,
      \<lparr>Url = ''/api/v1/series'', MatchWord = ''match[]''\<rparr>,
      \<lparr>Url = ''/api/v1/tail'', MatchWord = ''query''\<rparr>,
      \<lparr>Url = ''/api/v1/index/stats'', MatchWord = ''query''\<rparr>,
      \<lparr>Url = ''/api/v1/format_query'', MatchWord = ''query''\<rparr>,
      \<lparr>Url = ''/api/v1/labels'', MatchWord = ''match[]''\<rparr>,
      \<lparr>Url = ''/api/v1/label/{label}/values'', MatchWord = ''match[]''\<rparr>,
      \<lparr>Url = ''/api/v1/query_exemplars'', MatchWord = ''query''\<rparr>,
      \<lparr>Url = ''/api/v1/status/buildinfo'', MatchWord = ''query''\<rparr>]"

datatype EnforcerVariant = LogQLEnforcer | PromQLRequest

text \<open>
  What a handler of the public router holds: the \<^verbatim>\<open>Request\<close> it builds (match word and
  enforcer) and the arguments it gives to \<^verbatim>\<open>callUpstream\<close>.
\<close>

record Handler =
  hMatchWord :: string
  hEnforcer :: EnforcerVariant
  hUpstream :: string
  hUseMutualTLS :: bool

text \<open>
  The two handlers registered for one route, in the order of the loop body: the one on
  \<^verbatim>\<open>lokiRouter\<close> (path prefix \<^verbatim>\<open>/loki\<close>), then the one on \<^verbatim>\<open>thanosRouter\<close> (empty prefix).
\<close>

definition lokiHandler :: "Config \<Rightarrow> string \<Rightarrow> string \<Rightarrow> Route \<Rightarrow> string \<times> Handler" where
  "lokiHandler cfg lokiUrl thanosUrl route =
     (''/loki'' @ Url route,
      \<lparr>hMatchWord = MatchWord route, hEnforcer = LogQLEnforcer,
       hUpstream = thanosUrl, hUseMutualTLS = ThanosUseMutualTLS cfg\<rparr>)"

definition thanosHandler :: "Config \<Rightarrow> string \<Rightarrow> string \<Rightarrow> Route \<Rightarrow> string \<times> Handler" where
  "thanosHandler cfg lokiUrl thanosUrl route =
     ([] @ Url route,
      \<lparr>hMatchWord = MatchWord route, hEnforcer = PromQLRequest,
       hUpstream = lokiUrl, hUseMutualTLS = LokiUseMutualTLS cfg\<rparr>)"

text \<open>
  \<^verbatim>\<open>NewRoutes\<close>, the public router \<open>e\<close>: a request is tried against the sub-router of
  \<^verbatim>\<open>/loki\<close> first and against the one of the empty prefix second, inside each against the
  routes in the order of the table. \<^verbatim>\<open>url.Parse\<close> is a parameter. The second router
  \<open>i\<close>, with the health, profiling and metrics endpoints, is left out.
\<close>

definition NewRoutes ::
  "(string \<Rightarrow> string option) \<Rightarrow> Config \<Rightarrow> error + (string \<times> Handler) list" where
  "NewRoutes url_Parse cfg =
     (case url_Parse (LokiURL cfg) of
        None \<Rightarrow> Inl (ParseError ''error parsing Loki URL'')
      | Some lokiUrl \<Rightarrow>
          (case url_Parse (ThanosURL cfg) of
             None \<Rightarrow> Inl (ParseError ''error parsing Thanos URL'')
           | Some thanosUrl \<Rightarrow>
               Inr (map (lokiHandler cfg lokiUrl thanosUrl) routes
                    @ map (thanosHandler cfg lokiUrl thanosUrl) routes)))"

text \<open>
  A path template of the router: a variable \<^verbatim>\<open>{name}\<close> stands for one or more bytes other
  than \<open>/\<close>, every other byte for itself. In the templates of the table a variable is
  followed by \<open>/\<close>, so it takes the whole segment.
\<close>

datatype tok = Lit char | Var

fun template :: "bool \<Rightarrow> string \<Rightarrow> tok list" where
  "template inVar [] = []"
| "template False (c # cs) =
     (if c = CHR ''{'' then Var # template True cs else Lit c # template False cs)"
| "template True (c # cs) =
     (if c = CHR ''}'' then template False cs else template True cs)"

fun matchPath :: "tok list \<Rightarrow> string \<Rightarrow> bool" where
  "matchPath [] p = (p = [])"
| "matchPath (Lit c # ts) p = (case p of [] \<Rightarrow> False | d # ds \<Rightarrow> c = d \<and> matchPath ts ds)"
| "matchPath (Var # ts) p =
     (takeWhile (\<lambda>c. c \<noteq> CHR ''/'') p \<noteq> []
      \<and> matchPath ts (dropWhile (\<lambda>c. c \<noteq> CHR ''/'') p))"

definition Match :: "(string \<times> Handler) list \<Rightarrow> string \<Rightarrow> Handler option" where
  "Match router path =
     map_option snd (find (\<lambda>(tpl, h). matchPath (template False tpl) path) router)"

text \<open>Responses, and what running a handler comes to.\<close>

record response =
  status :: nat
  headers :: "(string \<times> string) list"
  body :: string

datatype 'r served =
    Responded response
  | CallUpstream string bool 'r

text \<open>
  The body of both handlers: \<^verbatim>\<open>enforce\<close> either fails, having written the response, and the
  handler returns, or the request goes to \<^verbatim>\<open>callUpstream\<close>.
\<close>

definition serve :: "Handler \<Rightarrow> response + 'r \<Rightarrow> 'r served" where
  "serve h enforced =
     (case enforced of
        Inl resp \<Rightarrow> Responded resp
      | Inr r \<Rightarrow> CallUpstream (hUpstream h) (hUseMutualTLS h) r)"

text \<open>
  Modelled from the spec: \<^verbatim>\<open>Request.enforce\<close> is not among the sources. After
  authentication the caller's tenant set is resolved; the empty set is the terminal 403
  "no tenants"; otherwise the query goes to the enforcer of the route, whose failure
  aborts the request with the enforcer's response.
\<close>

definition enforce ::
  "(TenantSet \<Rightarrow> 'r \<Rightarrow> response + 'r) \<Rightarrow> TenantSet \<Rightarrow> 'r \<Rightarrow> response + 'r" where
  "enforce rewrite tls r =
     (if tls = [] then Inl \<lparr>status = 403, headers = [], body = ''no tenants''\<rparr>
      else rewrite tls r)"

section \<open>main.go\<close>

text \<open>
  The request as the handler reads and writes it: \<open>Authorization\<close> is
  \<^verbatim>\<open>req.Header.Get("Authorization")\<close>, empty when the header is absent; \<open>reqURL\<close> is
  \<^verbatim>\<open>req.URL.String()\<close>.
\<close>

record request =
  Authorization :: string
  reqHost :: string
  reqURL :: string
  reqURLHost :: string
  reqURLScheme :: string
  RequestURI :: string

record url =
  Scheme :: string
  Host :: string

record Token =
  Valid :: bool
  Raw :: string

record KeycloakToken =
  Groups :: "string list"
  PreferredUsername :: string

record environ =
  ADMIN_GROUP :: string
  TOKEN_EXCHANGE :: string

text \<open>
  What the handler calls outside the sources. \<open>ParseWithClaims\<close> is the JWT library's:
  the token pointer (nil is \<open>None\<close>) and the claims it filled in.
  \<open>GetLabelsFromRoleBindings\<close> resolves the tenant labels of a user. \<open>TokenExchange\<close> is
  the round trip to the identity provider: \<open>None\<close> when the request fails and there is
  no response, else the access token read from the body. \<open>Do\<close> is
  \<^verbatim>\<open>http.DefaultClient.Do\<close> with the body read: the error's text, or the upstream's
  response. \<open>url_Parse\<close> is \<^verbatim>\<open>url.Parse\<close>.
\<close>

record extern =
  ParseWithClaims :: "string \<Rightarrow> Token option \<times> KeycloakToken"
  GetLabelsFromRoleBindings :: "string \<Rightarrow> string list"
  TokenExchange :: "string \<Rightarrow> string option"
  Do :: "request \<Rightarrow> string + response"
  url_Parse :: "string \<Rightarrow> string option"

text \<open>
  How a call of the handler ends: with the response it wrote, or with a run-time panic
  (a slice or index out of range, a nil pointer), in which case it wrote none.
\<close>

datatype result = Response response | Panic

text \<open>The status code a call of the handler answered with, if it answered.\<close>

fun statusOf :: "result \<Rightarrow> nat option" where
  "statusOf (Response r) = Some (status r)"
| "statusOf Panic = None"

text \<open>\<^verbatim>\<open>strings.ToLower\<close> on the ASCII letters.\<close>

definition ToLower :: "string \<Rightarrow> string" where
  "ToLower s =
     map (\<lambda>c. if 65 \<le> (of_char c :: nat) \<and> (of_char c :: nat) \<le> 90
               then char_of (of_char c + (32 :: nat)) else c) s"

text \<open>\<^verbatim>\<open>strings.Index(URL, "?") + 1\<close>: zero when there is no question mark.\<close>

definition quIn :: "string \<Rightarrow> nat" where
  "quIn URL =
     (if CHR ''?'' \<in> set URL then length (takeWhile (\<lambda>c. c \<noteq> CHR ''?'') URL) + 1 else 0)"

text \<open>
  Lines 96 to 150: the request that goes upstream. An administrator with token exchange
  switched on goes to the bypass server with the exchanged token; everyone else gets one
  \<^verbatim>\<open>tenantLabel=label&\<close> per label put in front of the query string and goes to the origin
  server with the service account's token.
\<close>

definition upstreamRequest ::
  "extern \<Rightarrow> environ \<Rightarrow> string \<Rightarrow> url \<Rightarrow> string \<Rightarrow> url \<Rightarrow> request \<Rightarrow> Token \<Rightarrow> KeycloakToken
     \<Rightarrow> request option" where
  "upstreamRequest ext env ServiceAccountToken originBypassServerURL tenantLabel
       originServerURL req token keycloakToken =
     (case Groups keycloakToken of
        [] \<Rightarrow> None
      | g # _ \<Rightarrow>
          if g = ADMIN_GROUP env \<and> ToLower (TOKEN_EXCHANGE env) = ''true'' then
            (case TokenExchange ext (Raw token) of
               None \<Rightarrow> None
             | Some AccessToken \<Rightarrow>
                 Some (req\<lparr>reqHost := Host originBypassServerURL,
                           reqURLHost := Host originBypassServerURL,
                           reqURLScheme := Scheme originBypassServerURL,
                           Authorization := ''Bearer '' @ AccessToken,
                           RequestURI := []\<rparr>))
          else
            (let labels = GetLabelsFromRoleBindings ext (PreferredUsername keycloakToken);
                 URL = reqURL req;
                 labelsEnforcer = concat (map (\<lambda>label. tenantLabel @ ''='' @ label @ ''&'') labels)
             in case url_Parse ext (take (quIn URL) URL @ labelsEnforcer @ drop (quIn URL) URL) of
                  None \<Rightarrow> None
                | Some u \<Rightarrow>
                    Some (req\<lparr>reqURL := u,
                              reqHost := Host originServerURL,
                              reqURLHost := Host originServerURL,
                              reqURLScheme := Scheme originServerURL,
                              Authorization := ''Bearer '' @ ServiceAccountToken,
                              RequestURI := []\<rparr>)))"

text \<open>
  \<^verbatim>\<open>configureProxy\<close>, the handler it returns. The slice \<^verbatim>\<open>[7:]\<close> of a header shorter than
  seven bytes is out of range; a nil token, an empty group list, a failed token exchange
  and an unparsable URL are dereferenced or indexed without a check (\<open>None\<close> of
  \<open>upstreamRequest\<close>). The handler sets no response header.
\<close>

definition configureProxy ::
  "extern \<Rightarrow> environ \<Rightarrow> string \<Rightarrow> url \<Rightarrow> string \<Rightarrow> url \<Rightarrow> request \<Rightarrow> result" where
  "configureProxy ext env ServiceAccountToken originBypassServerURL tenantLabel
       originServerURL req =
     (if Authorization req = [] then
        Response \<lparr>status = 403, headers = [], body = ''No Authorization header found''\<rparr>
      else if length (Authorization req) < 7 then Panic
      else
        (let tokenString = drop 7 (Authorization req) in
         case ParseWithClaims ext tokenString of
           (None, keycloakToken) \<Rightarrow> Panic
         | (Some token, keycloakToken) \<Rightarrow>
             if \<not> Valid token then
               Response \<lparr>status = 403, headers = [], body = ''error while parsing token''\<rparr>
             else
               (case upstreamRequest ext env ServiceAccountToken originBypassServerURL
                       tenantLabel originServerURL req token keycloakToken of
                  None \<Rightarrow> Panic
                | Some req' \<Rightarrow>
                    (case Do ext req' of
                       Inl err \<Rightarrow> Response \<lparr>status = 500, headers = [], body = err\<rparr>
                     | Inr originServerResponse \<Rightarrow>
                         Response \<lparr>status = 200, headers = [],
                                   body = body originServerResponse\<rparr>))))"

section \<open>Concrete values for the examples\<close>

definition exampleCfg :: Config where
  "exampleCfg =
     \<lparr>TenantLabel = ''namespace'', LokiURL = ''https://loki:3100'', LokiUseMutualTLS = False,
      ThanosURL = ''https://thanos:9091'', ThanosUseMutualTLS = True\<rparr>"

definition exampleEnv :: environ where
  "exampleEnv = \<lparr>ADMIN_GROUP = ''admins'', TOKEN_EXCHANGE = ''false''\<rparr>"

text \<open>
  A token \<^verbatim>\<open>good\<close> of user alice, who has the label \<^verbatim>\<open>team-a\<close>; a token \<^verbatim>\<open>expired\<close> that the
  library parses and finds not valid; an upstream that answers 404 with a header on the
  path \<^verbatim>\<open>/api/v1/missing\<close> and cannot be reached for any other request.
\<close>

definition exampleExtern :: extern where
  "exampleExtern =
     \<lparr>ParseWithClaims = (\<lambda>s.
        if s = ''good'' then
          (Some \<lparr>Valid = True, Raw = s\<rparr>, \<lparr>Groups = [''dev''], PreferredUsername = ''alice''\<rparr>)
        else if s = ''expired'' then
          (Some \<lparr>Valid = False, Raw = s\<rparr>, \<lparr>Groups = [''dev''], PreferredUsername = ''alice''\<rparr>)
        else (None, \<lparr>Groups = [], PreferredUsername = []\<rparr>)),
      GetLabelsFromRoleBindings = (\<lambda>u. if u = ''alice'' then [''team-a''] else []),
      TokenExchange = (\<lambda>t. None),
      Do = (\<lambda>r. if reqURL r = ''namespace=team-a&/api/v1/missing''
                 then Inr \<lparr>status = 404, headers = [(''Content-Type'', ''text/plain'')],
                           body = ''not found''\<rparr>
                 else Inl ''dial tcp: connection refused''),
      url_Parse = Some\<rparr>"

definition exampleRequest :: "string \<Rightarrow> string \<Rightarrow> request" where
  "exampleRequest auth u =
     \<lparr>Authorization = auth, reqHost = ''proxy:8080'', reqURL = u, reqURLHost = [],
      reqURLScheme = [], RequestURI = u\<rparr>"

definition exampleOrigin :: url where
  "exampleOrigin = \<lparr>Scheme = ''https'', Host = ''origin:9090''\<rparr>"

definition exampleBypass :: url where
  "exampleBypass = \<lparr>Scheme = ''https'', Host = ''bypass:9090''\<rparr>"

text \<open>
  The parsed form of \<^verbatim>\<open>up{namespace!="x"} + up{namespace=~"c|b"}\<close>, and of \<^verbatim>\<open>up\<close>.
\<close>

definition exampleSum :: Expr where
  "exampleSum =
     Node ''+''
       [VectorSelector [\<lparr>Name = ''__name__'', Type = MatchEqual, Value = ''up''\<rparr>,
                        \<lparr>Name = ''namespace'', Type = MatchNotEqual, Value = ''x''\<rparr>],
        VectorSelector [\<lparr>Name = ''__name__'', Type = MatchEqual, Value = ''up''\<rparr>,
                        \<lparr>Name = ''namespace'', Type = MatchRegexp, Value = ''c|b''\<rparr>]]"

definition exampleUp :: Expr where
  "exampleUp = VectorSelector [\<lparr>Name = ''__name__'', Type = MatchEqual, Value = ''up''\<rparr>]"

text \<open>
  A parser and a printer for the examples. The printer writes a vector selector as the
  Prometheus printer does: the metric name, taken from the equality matcher on
  \<^verbatim>\<open>__name__\<close>, then the other matchers in their order between braces. The parser is a
  table of four texts with their expressions, in which, as in the Prometheus parser, the
  matcher on \<^verbatim>\<open>__name__\<close> comes last.
\<close>

definition isMetricName :: "Matcher \<Rightarrow> bool" where
  "isMetricName m = (Name m = ''__name__'' \<and> Type m = MatchEqual)"

definition matcherString :: "Matcher \<Rightarrow> string" where
  \<open>matcherString m =
     Name m
     @ (case Type m of
          MatchEqual \<Rightarrow> ''=''
        | MatchNotEqual \<Rightarrow> ''!=''
        | MatchRegexp \<Rightarrow> ''=~''
        | MatchNotRegexp \<Rightarrow> ''!~'')
     @ ''"'' @ Value m @ ''"''\<close>

fun exampleString :: "Expr \<Rightarrow> string" where
  "exampleString (VectorSelector ms) =
     (case filter isMetricName ms of [] \<Rightarrow> [] | m # _ \<Rightarrow> Value m)
     @ (if filter (\<lambda>m. \<not> isMetricName m) ms = [] then []
        else ''{'' @ Join (map matcherString (filter (\<lambda>m. \<not> isMetricName m) ms)) '','' @ ''}'')"
| "exampleString (Node k cs) = k @ ''('' @ Join (map exampleString cs) '','' @ '')''"

definition exampleRewritten :: string where
  \<open>exampleRewritten = ''up{namespace=~"team-a|team-b"}''\<close>

definition exampleBar :: string where
  \<open>exampleBar = ''up{namespace="a|b"}''\<close>

definition exampleNotEqual :: string where
  \<open>exampleNotEqual = ''up{namespace!="a"}''\<close>

definition exampleQueries :: "(string \<times> Expr) list" where
  "exampleQueries =
     [(''up'', exampleUp),
      (exampleRewritten,
       VectorSelector [\<lparr>Name = ''namespace'', Type = MatchRegexp, Value = ''team-a|team-b''\<rparr>,
                       \<lparr>Name = ''__name__'', Type = MatchEqual, Value = ''up''\<rparr>]),
      (exampleBar,
       VectorSelector [\<lparr>Name = ''namespace'', Type = MatchEqual, Value = ''a|b''\<rparr>,
                       \<lparr>Name = ''__name__'', Type = MatchEqual, Value = ''up''\<rparr>]),
      (exampleNotEqual,
       VectorSelector [\<lparr>Name = ''namespace'', Type = MatchNotEqual, Value = ''a''\<rparr>,
                       \<lparr>Name = ''__name__'', Type = MatchEqual, Value = ''up''\<rparr>])]"

definition exampleParseExpr :: "string \<Rightarrow> error + Expr" where
  "exampleParseExpr query =
     (case map_of exampleQueries query of
        None \<Rightarrow> Inl (ParseError ''parse error'')
      | Some expr \<Rightarrow> Inr expr)"

section \<open>Facts about Split and Join\<close>

lemma Split_not_Nil: "Split s sep \<noteq> []"
  by (induction s) (auto split: list.splits)

lemma Join_Cons: "ys \<noteq> [] \<Longrightarrow> Join (x # ys) sep = x @ sep @ Join ys sep"
  by (cases ys) simp_all

lemma Join_Split: "Join (Split s c) [c] = s"
proof (induction s)
  case Nil
  show ?case by simp
next
  case (Cons a s)
  show ?case
  proof (cases "a = c")
    case True
    with Cons show ?thesis by (simp add: Join_Cons Split_not_Nil)
  next
    case False
    obtain w ws where sp: "Split s c = w # ws"
      using Split_not_Nil [of s c] by (cases "Split s c") auto
    from Cons sp False show ?thesis
      by (cases ws) auto
  qed
qed

section \<open>The request pipeline of the router\<close>

text \<open>
  C2. When the caller's resolved tenant set is empty, the handler of every route answers
  403 with the body "no tenants", whatever the query and whatever the enforcer would do
  with it: nothing is rewritten and \<^verbatim>\<open>callUpstream\<close> is not reached.
\<close>

theorem empty_tenant_set_rejected:
  "serve h (enforce rewrite [] r)
     = Responded \<lparr>status = 403, headers = [], body = ''no tenants''\<rparr>"
  by (simp add: serve_def enforce_def)

text \<open>
  The enforcer functions of the sources do not make this check themselves: for a query
  without a tenant matcher and the empty tenant set, \<^verbatim>\<open>enforceLabels\<close> returns the empty
  list without an error.
\<close>

lemma enforceLabels_empty_tenants:
  "l (TenantLabel cfg) = None \<Longrightarrow> enforceLabels cfg l [] = Inr []"
  by (simp add: enforceLabels_def MapKeysToArray_def)

text \<open>
  C3, as the code has it. The handler registered under \<^verbatim>\<open>/loki\<close> builds its request with
  the LogQL enforcer and calls the upstream with the Thanos URL; the handler registered
  under the empty prefix builds its request with the PromQL enforcer and calls the
  upstream with the Loki URL. The two upstreams are exchanged.
\<close>

theorem NewRoutes_upstreams_exchanged:
  "(case NewRoutes Some cfg of
      Inl err \<Rightarrow> None
    | Inr router \<Rightarrow> Match router ''/loki/api/v1/query'')
     = Some \<lparr>hMatchWord = ''query'', hEnforcer = LogQLEnforcer,
             hUpstream = ThanosURL cfg, hUseMutualTLS = ThanosUseMutualTLS cfg\<rparr>
   \<and> (case NewRoutes Some cfg of
      Inl err \<Rightarrow> None
    | Inr router \<Rightarrow> Match router ''/api/v1/query'')
     = Some \<lparr>hMatchWord = ''query'', hEnforcer = PromQLRequest,
             hUpstream = LokiURL cfg, hUseMutualTLS = LokiUseMutualTLS cfg\<rparr>"
  by (simp add: NewRoutes_def routes_def lokiHandler_def thanosHandler_def Match_def)

section \<open>The handler of main.go\<close>

text \<open>
  C10. A request whose Authorization header is present and shorter than seven bytes makes
  the handler panic: the slice from index 7 is out of range, and no response is written.
\<close>

theorem configureProxy_short_header_panics:
  "Authorization req \<noteq> [] \<Longrightarrow> length (Authorization req) < 7 \<Longrightarrow>
   configureProxy ext env sat bypass tenantLabel origin req = Panic"
  by (simp add: configureProxy_def)

theorem configureProxy_short_header_panics_witness:
  "Authorization (exampleRequest ''Bearer'' ''/api/v1/query?query=up'') \<noteq> []
   \<and> length (Authorization (exampleRequest ''Bearer'' ''/api/v1/query?query=up'')) < 7
   \<and> configureProxy exampleExtern exampleEnv ''sa'' exampleBypass ''namespace'' exampleOrigin
        (exampleRequest ''Bearer'' ''/api/v1/query?query=up'') = Panic"
  using configureProxy_short_header_panics
    [of "exampleRequest ''Bearer'' ''/api/v1/query?query=up''" exampleExtern exampleEnv
        "''sa''" exampleBypass "''namespace''" exampleOrigin]
  by (simp add: exampleRequest_def)

text \<open>
  C6, as stated, fails: a request without Authorization header is answered with 403, not
  with 401.
\<close>

theorem missing_authorization_not_401:
  "statusOf (configureProxy exampleExtern exampleEnv ''sa'' exampleBypass ''namespace''
      exampleOrigin (exampleRequest [] ''/api/v1/query?query=up'')) = Some 403
   \<and> statusOf (configureProxy exampleExtern exampleEnv ''sa'' exampleBypass ''namespace''
      exampleOrigin (exampleRequest [] ''/api/v1/query?query=up'')) \<noteq> Some 401"
  by (simp add: configureProxy_def exampleRequest_def)

text \<open>
  C6, amended. Every request without Authorization header is answered with 403 and the
  body "No Authorization header found", whatever the collaborators are: no token is
  parsed, no tenant label is resolved and nothing is forwarded.
\<close>

theorem missing_authorization_forbidden:
  "Authorization req = [] \<Longrightarrow>
   configureProxy ext env sat bypass tenantLabel origin req
     = Response \<lparr>status = 403, headers = [], body = ''No Authorization header found''\<rparr>"
  by (simp add: configureProxy_def)

theorem missing_authorization_forbidden_witness:
  "Authorization (exampleRequest [] ''/api/v1/query?query=up'') = []
   \<and> configureProxy exampleExtern exampleEnv ''sa'' exampleBypass ''namespace'' exampleOrigin
        (exampleRequest [] ''/api/v1/query?query=up'')
     = Response \<lparr>status = 403, headers = [], body = ''No Authorization header found''\<rparr>"
  using missing_authorization_forbidden
    [of "exampleRequest [] ''/api/v1/query?query=up''" exampleExtern exampleEnv
        "''sa''" exampleBypass "''namespace''" exampleOrigin]
  by (simp add: exampleRequest_def)

text \<open>
  The branch of a token that is parsed and not valid answers 403 as well, under a comment
  that says 401.
\<close>

lemma invalid_token_forbidden:
  "7 \<le> length (Authorization req) \<Longrightarrow>
   ParseWithClaims ext (drop 7 (Authorization req)) = (Some token, keycloakToken) \<Longrightarrow>
   \<not> Valid token \<Longrightarrow>
   configureProxy ext env sat bypass tenantLabel origin req
     = Response \<lparr>status = 403, headers = [], body = ''error while parsing token''\<rparr>"
  by (auto simp: configureProxy_def)

text \<open>
  When the handler reaches the round trip, the request it sends is the one of
  \<open>upstreamRequest\<close>.
\<close>

lemma configureProxy_forwards:
  "7 \<le> length (Authorization req) \<Longrightarrow>
   ParseWithClaims ext (drop 7 (Authorization req)) = (Some token, keycloakToken) \<Longrightarrow>
   Valid token \<Longrightarrow>
   upstreamRequest ext env sat bypass tenantLabel origin req token keycloakToken = Some req' \<Longrightarrow>
   configureProxy ext env sat bypass tenantLabel origin req
     = (case Do ext req' of
          Inl err \<Rightarrow> Response \<lparr>status = 500, headers = [], body = err\<rparr>
        | Inr originServerResponse \<Rightarrow>
            Response \<lparr>status = 200, headers = [], body = body originServerResponse\<rparr>)"
  by (auto simp: configureProxy_def)

lemma example_upstreamRequest:
  "upstreamRequest exampleExtern exampleEnv ''sa'' exampleBypass ''namespace'' exampleOrigin
     (exampleRequest auth u) \<lparr>Valid = True, Raw = ''good''\<rparr>
     \<lparr>Groups = [''dev''], PreferredUsername = ''alice''\<rparr>
   = Some \<lparr>Authorization = ''Bearer sa'', reqHost = ''origin:9090'',
           reqURL = take (quIn u) u @ ''namespace=team-a&'' @ drop (quIn u) u,
           reqURLHost = ''origin:9090'', reqURLScheme = ''https'', RequestURI = []\<rparr>"
  by (simp add: upstreamRequest_def exampleExtern_def exampleEnv_def exampleRequest_def
      exampleOrigin_def ToLower_def)

text \<open>
  C7, as stated, fails: the upstream answers 404 with a Content-Type header, and the
  client gets 200 and no header.
\<close>

theorem upstream_status_not_passed_on:
  "Do exampleExtern
     \<lparr>Authorization = ''Bearer sa'', reqHost = ''origin:9090'',
      reqURL = ''namespace=team-a&/api/v1/missing'',
      reqURLHost = ''origin:9090'', reqURLScheme = ''https'', RequestURI = []\<rparr>
     = Inr \<lparr>status = 404, headers = [(''Content-Type'', ''text/plain'')], body = ''not found''\<rparr>
   \<and> configureProxy exampleExtern exampleEnv ''sa'' exampleBypass ''namespace'' exampleOrigin
        (exampleRequest ''Bearer good'' ''/api/v1/missing'')
     = Response \<lparr>status = 200, headers = [], body = ''not found''\<rparr>
   \<and> configureProxy exampleExtern exampleEnv ''sa'' exampleBypass ''namespace'' exampleOrigin
        (exampleRequest ''Bearer good'' ''/api/v1/missing'')
     \<noteq> Response \<lparr>status = 404, headers = [(''Content-Type'', ''text/plain'')],
                   body = ''not found''\<rparr>"
proof -
  have up: "upstreamRequest exampleExtern exampleEnv ''sa'' exampleBypass ''namespace''
      exampleOrigin (exampleRequest ''Bearer good'' ''/api/v1/missing'')
      \<lparr>Valid = True, Raw = ''good''\<rparr> \<lparr>Groups = [''dev''], PreferredUsername = ''alice''\<rparr>
    = Some \<lparr>Authorization = ''Bearer sa'', reqHost = ''origin:9090'',
            reqURL = ''namespace=team-a&/api/v1/missing'',
            reqURLHost = ''origin:9090'', reqURLScheme = ''https'', RequestURI = []\<rparr>"
    by (simp add: example_upstreamRequest quIn_def)
  have parse: "ParseWithClaims exampleExtern
      (drop 7 (Authorization (exampleRequest ''Bearer good'' ''/api/v1/missing'')))
    = (Some \<lparr>Valid = True, Raw = ''good''\<rparr>, \<lparr>Groups = [''dev''], PreferredUsername = ''alice''\<rparr>)"
    by (simp add: exampleExtern_def exampleRequest_def)
  have len: "7 \<le> length (Authorization (exampleRequest ''Bearer good'' ''/api/v1/missing''))"
    by (simp add: exampleRequest_def)
  have answer: "Do exampleExtern
     \<lparr>Authorization = ''Bearer sa'', reqHost = ''origin:9090'',
      reqURL = ''namespace=team-a&/api/v1/missing'',
      reqURLHost = ''origin:9090'', reqURLScheme = ''https'', RequestURI = []\<rparr>
     = Inr \<lparr>status = 404, headers = [(''Content-Type'', ''text/plain'')], body = ''not found''\<rparr>"
    by (simp add: exampleExtern_def)
  show ?thesis
    using configureProxy_forwards [OF len parse _ up] answer by simp
qed

text \<open>
  C7, amended. For every upstream response received, the client is answered with status
  200 and the upstream's body as it is; the upstream's status code and headers are not
  passed on.
\<close>

theorem upstream_body_passed_on:
  "7 \<le> length (Authorization req) \<Longrightarrow>
   ParseWithClaims ext (drop 7 (Authorization req)) = (Some token, keycloakToken) \<Longrightarrow>
   Valid token \<Longrightarrow>
   upstreamRequest ext env sat bypass tenantLabel origin req token keycloakToken = Some req' \<Longrightarrow>
   Do ext req' = Inr originServerResponse \<Longrightarrow>
   configureProxy ext env sat bypass tenantLabel origin req
     = Response \<lparr>status = 200, headers = [], body = body originServerResponse\<rparr>"
  by (simp add: configureProxy_forwards)


theorem upstream_body_passed_on_witness:
  "7 \<le> length (Authorization (exampleRequest ''Bearer good'' ''/api/v1/missing''))
   \<and> ParseWithClaims exampleExtern
        (drop 7 (Authorization (exampleRequest ''Bearer good'' ''/api/v1/missing'')))
      = (Some \<lparr>Valid = True, Raw = ''good''\<rparr>,
         \<lparr>Groups = [''dev''], PreferredUsername = ''alice''\<rparr>)
   \<and> Valid \<lparr>Valid = True, Raw = ''good''\<rparr>
   \<and> upstreamRequest exampleExtern exampleEnv ''sa'' exampleBypass ''namespace'' exampleOrigin
        (exampleRequest ''Bearer good'' ''/api/v1/missing'')
        \<lparr>Valid = True, Raw = ''good''\<rparr> \<lparr>Groups = [''dev''], PreferredUsername = ''alice''\<rparr>
      = Some \<lparr>Authorization = ''Bearer sa'', reqHost = ''origin:9090'',
              reqURL = ''namespace=team-a&/api/v1/missing'',
              reqURLHost = ''origin:9090'', reqURLScheme = ''https'', RequestURI = []\<rparr>
   \<and> Do exampleExtern
        \<lparr>Authorization = ''Bearer sa'', reqHost = ''origin:9090'',
         reqURL = ''namespace=team-a&/api/v1/missing'',
         reqURLHost = ''origin:9090'', reqURLScheme = ''https'', RequestURI = []\<rparr>
      = Inr \<lparr>status = 404, headers = [(''Content-Type'', ''text/plain'')],
             body = ''not found''\<rparr>
   \<and> configureProxy exampleExtern exampleEnv ''sa'' exampleBypass ''namespace'' exampleOrigin
        (exampleRequest ''Bearer good'' ''/api/v1/missing'')
      = Response \<lparr>status = 200, headers = [], body = ''not found''\<rparr>"
proof -
  have up: "upstreamRequest exampleExtern exampleEnv ''sa'' exampleBypass ''namespace''
      exampleOrigin (exampleRequest ''Bearer good'' ''/api/v1/missing'')
      \<lparr>Valid = True, Raw = ''good''\<rparr> \<lparr>Groups = [''dev''], PreferredUsername = ''alice''\<rparr>
    = Some \<lparr>Authorization = ''Bearer sa'', reqHost = ''origin:9090'',
            reqURL = ''namespace=team-a&/api/v1/missing'',
            reqURLHost = ''origin:9090'', reqURLScheme = ''https'', RequestURI = []\<rparr>"
    by (simp add: example_upstreamRequest quIn_def)
  have parse: "ParseWithClaims exampleExtern
      (drop 7 (Authorization (exampleRequest ''Bearer good'' ''/api/v1/missing'')))
    = (Some \<lparr>Valid = True, Raw = ''good''\<rparr>, \<lparr>Groups = [''dev''], PreferredUsername = ''alice''\<rparr>)"
    by (simp add: exampleExtern_def exampleRequest_def)
  have len: "7 \<le> length (Authorization (exampleRequest ''Bearer good'' ''/api/v1/missing''))"
    by (simp add: exampleRequest_def)
  have answer: "Do exampleExtern
     \<lparr>Authorization = ''Bearer sa'', reqHost = ''origin:9090'',
      reqURL = ''namespace=team-a&/api/v1/missing'',
      reqURLHost = ''origin:9090'', reqURLScheme = ''https'', RequestURI = []\<rparr>
     = Inr \<lparr>status = 404, headers = [(''Content-Type'', ''text/plain'')], body = ''not found''\<rparr>"
    by (simp add: exampleExtern_def)
  show ?thesis
    using upstream_body_passed_on [OF len parse _ up answer] len parse up answer by simp
qed

text \<open>
  C8, as stated, fails: the upstream cannot be reached, and the client gets 500, not 502.
\<close>

theorem unreachable_upstream_not_502:
  "statusOf (configureProxy exampleExtern exampleEnv ''sa'' exampleBypass ''namespace''
      exampleOrigin (exampleRequest ''Bearer good'' ''/api/v1/query?query=up'')) = Some 500
   \<and> statusOf (configureProxy exampleExtern exampleEnv ''sa'' exampleBypass ''namespace''
      exampleOrigin (exampleRequest ''Bearer good'' ''/api/v1/query?query=up'')) \<noteq> Some 502"
proof -
  have up: "upstreamRequest exampleExtern exampleEnv ''sa'' exampleBypass ''namespace''
      exampleOrigin (exampleRequest ''Bearer good'' ''/api/v1/query?query=up'')
      \<lparr>Valid = True, Raw = ''good''\<rparr> \<lparr>Groups = [''dev''], PreferredUsername = ''alice''\<rparr>
    = Some \<lparr>Authorization = ''Bearer sa'', reqHost = ''origin:9090'',
            reqURL = ''/api/v1/query?namespace=team-a&query=up'',
            reqURLHost = ''origin:9090'', reqURLScheme = ''https'', RequestURI = []\<rparr>"
    by (simp add: example_upstreamRequest quIn_def)
  have parse: "ParseWithClaims exampleExtern
      (drop 7 (Authorization (exampleRequest ''Bearer good'' ''/api/v1/query?query=up'')))
    = (Some \<lparr>Valid = True, Raw = ''good''\<rparr>, \<lparr>Groups = [''dev''], PreferredUsername = ''alice''\<rparr>)"
    by (simp add: exampleExtern_def exampleRequest_def)
  have len: "7 \<le> length (Authorization (exampleRequest ''Bearer good'' ''/api/v1/query?query=up''))"
    by (simp add: exampleRequest_def)
  have answer: "Do exampleExtern
     \<lparr>Authorization = ''Bearer sa'', reqHost = ''origin:9090'',
      reqURL = ''/api/v1/query?namespace=team-a&query=up'',
      reqURLHost = ''origin:9090'', reqURLScheme = ''https'', RequestURI = []\<rparr>
     = Inl ''dial tcp: connection refused''"
    by (simp add: exampleExtern_def)
  show ?thesis
    using configureProxy_forwards [OF len parse _ up] answer by simp
qed

text \<open>
  C8, amended. For every forwarded request whose round trip fails, for whatever reason,
  a timeout or an upstream that cannot be reached, the client is answered with 500 and
  the text of the error as body; the handler answers with 502 or 504 in no case.
\<close>

theorem failed_round_trip_internal_error:
  assumes "7 \<le> length (Authorization req)"
    and "ParseWithClaims ext (drop 7 (Authorization req)) = (Some token, keycloakToken)"
    and "Valid token"
    and "upstreamRequest ext env sat bypass tenantLabel origin req token keycloakToken = Some req'"
    and "Do ext req' = Inl err"
  shows "configureProxy ext env sat bypass tenantLabel origin req
           = Response \<lparr>status = 500, headers = [], body = err\<rparr>
         \<and> statusOf (configureProxy ext' env' sat' bypass' tenantLabel' origin' req'')
             \<notin> {Some 502, Some 504}"
proof
  show "configureProxy ext env sat bypass tenantLabel origin req
           = Response \<lparr>status = 500, headers = [], body = err\<rparr>"
    using assms by (simp add: configureProxy_forwards)
next
  show "statusOf (configureProxy ext' env' sat' bypass' tenantLabel' origin' req'')
             \<notin> {Some 502, Some 504}"
    by (auto simp: configureProxy_def Let_def split: option.splits sum.splits prod.splits)
qed

theorem failed_round_trip_internal_error_witness:
  "7 \<le> length (Authorization (exampleRequest ''Bearer good'' ''/api/v1/query?query=up''))
   \<and> ParseWithClaims exampleExtern
        (drop 7 (Authorization (exampleRequest ''Bearer good'' ''/api/v1/query?query=up'')))
      = (Some \<lparr>Valid = True, Raw = ''good''\<rparr>,
         \<lparr>Groups = [''dev''], PreferredUsername = ''alice''\<rparr>)
   \<and> Valid \<lparr>Valid = True, Raw = ''good''\<rparr>
   \<and> upstreamRequest exampleExtern exampleEnv ''sa'' exampleBypass ''namespace'' exampleOrigin
        (exampleRequest ''Bearer good'' ''/api/v1/query?query=up'')
        \<lparr>Valid = True, Raw = ''good''\<rparr> \<lparr>Groups = [''dev''], PreferredUsername = ''alice''\<rparr>
      = Some \<lparr>Authorization = ''Bearer sa'', reqHost = ''origin:9090'',
              reqURL = ''/api/v1/query?namespace=team-a&query=up'',
              reqURLHost = ''origin:9090'', reqURLScheme = ''https'', RequestURI = []\<rparr>
   \<and> Do exampleExtern
        \<lparr>Authorization = ''Bearer sa'', reqHost = ''origin:9090'',
         reqURL = ''/api/v1/query?namespace=team-a&query=up'',
         reqURLHost = ''origin:9090'', reqURLScheme = ''https'', RequestURI = []\<rparr>
      = Inl ''dial tcp: connection refused''
   \<and> configureProxy exampleExtern exampleEnv ''sa'' exampleBypass ''namespace'' exampleOrigin
        (exampleRequest ''Bearer good'' ''/api/v1/query?query=up'')
      = Response \<lparr>status = 500, headers = [], body = ''dial tcp: connection refused''\<rparr>"
proof -
  have up: "upstreamRequest exampleExtern exampleEnv ''sa'' exampleBypass ''namespace''
      exampleOrigin (exampleRequest ''Bearer good'' ''/api/v1/query?query=up'')
      \<lparr>Valid = True, Raw = ''good''\<rparr> \<lparr>Groups = [''dev''], PreferredUsername = ''alice''\<rparr>
    = Some \<lparr>Authorization = ''Bearer sa'', reqHost = ''origin:9090'',
            reqURL = ''/api/v1/query?namespace=team-a&query=up'',
            reqURLHost = ''origin:9090'', reqURLScheme = ''https'', RequestURI = []\<rparr>"
    by (simp add: example_upstreamRequest quIn_def)
  have parse: "ParseWithClaims exampleExtern
      (drop 7 (Authorization (exampleRequest ''Bearer good'' ''/api/v1/query?query=up'')))
    = (Some \<lparr>Valid = True, Raw = ''good''\<rparr>, \<lparr>Groups = [''dev''], PreferredUsername = ''alice''\<rparr>)"
    by (simp add: exampleExtern_def exampleRequest_def)
  have len: "7 \<le> length (Authorization (exampleRequest ''Bearer good'' ''/api/v1/query?query=up''))"
    by (simp add: exampleRequest_def)
  have answer: "Do exampleExtern
     \<lparr>Authorization = ''Bearer sa'', reqHost = ''origin:9090'',
      reqURL = ''/api/v1/query?namespace=team-a&query=up'',
      reqURLHost = ''origin:9090'', reqURLScheme = ''https'', RequestURI = []\<rparr>
     = Inl ''dial tcp: connection refused''"
    by (simp add: exampleExtern_def)
  show ?thesis
    using failed_round_trip_internal_error [OF len parse _ up answer] len parse up answer
    by simp
qed
section \<open>What the collected map holds\<close>

lemma fold_store_last:
  "fold storeMatcher ms l n
     = (if filter (\<lambda>m. Name m = n) ms = [] then l n
        else Some (Value (last (filter (\<lambda>m. Name m = n) ms))))"
  by (induction ms arbitrary: l rule: rev_induct) (auto simp: storeMatcher_def)

lemma fold_Inspect_matchers:
  assumes "\<And>c l. c \<in> set cs \<Longrightarrow>
             Inspect c l = fold storeMatcher (matchers c) l"
  shows "fold Inspect cs l
           = fold storeMatcher (concat (map matchers cs)) l"
  using assms by (induction cs arbitrary: l) simp_all

lemma Inspect_matchers:
  "Inspect expr l = fold storeMatcher (matchers expr) l"
proof (induction expr arbitrary: l)
  case (VectorSelector ms)
  show ?case by simp
next
  case (Node k cs)
  then show ?case by (simp add: fold_Inspect_matchers)
qed

lemma matchers_retype:
  "matchers (retype f expr) = map (\<lambda>m. m\<lparr>Type := f m\<rparr>) (matchers expr)"
  by (induction expr) (simp_all add: map_concat comp_def cong: map_cong)

lemma storeMatcher_retype: "storeMatcher (m\<lparr>Type := t\<rparr>) = storeMatcher m"
  by (rule ext) (simp add: storeMatcher_def)

lemma Inspect_retype: "Inspect (retype f expr) l = Inspect expr l"
  by (simp add: Inspect_matchers matchers_retype fold_map comp_def storeMatcher_retype)

lemma Inspect_tenant:
  "Inspect expr Map.empty n
     = (if filter (\<lambda>m. Name m = n) (matchers expr) = [] then None
        else Some (Value (last (filter (\<lambda>m. Name m = n) (matchers expr)))))"
  by (simp add: Inspect_matchers fold_store_last)

lemma enforceLabels_present:
  "l (TenantLabel cfg) = Some v \<Longrightarrow>
   enforceLabels cfg l tls =
     (case find (\<lambda>q. q \<notin> fst ` set tls) (Split v (CHR ''|'')) of
        None \<Rightarrow> Inr (Split v (CHR ''|''))
      | Some q \<Rightarrow> Inl (UserNotAllowed q))"
  by (auto simp: enforceLabels_def checkLabels_def map_of_eq_None_iff split: option.splits)

text \<open>
  C9. The subset check does not look at the type of a matcher: replacing the types of
  all matchers of a query leaves the collected map as it is. Of several matchers with
  one label name the map keeps the value of the last one visited only. So the outcome
  of the check is the outcome for the value of the last tenant matcher visited, split
  on \<open>|\<close>, whatever its type and whatever the earlier ones hold.
\<close>

theorem subset_check_type_blind_last_wins:
  "extractLabelsAndValues (retype f expr) = extractLabelsAndValues expr
   \<and> extractLabelsAndValues expr
       = Inr (\<lambda>n. if filter (\<lambda>m. Name m = n) (matchers expr) = [] then None
                   else Some (Value (last (filter (\<lambda>m. Name m = n) (matchers expr)))))
   \<and> (filter (\<lambda>m. Name m = TenantLabel cfg) (matchers expr) \<noteq> [] \<longrightarrow>
        (case extractLabelsAndValues expr of
           Inl err \<Rightarrow> Inl err
         | Inr l \<Rightarrow> enforceLabels cfg l tls)
        = (case find (\<lambda>q. q \<notin> fst ` set tls)
                  (Split (Value (last (filter (\<lambda>m. Name m = TenantLabel cfg) (matchers expr))))
                     (CHR ''|'')) of
             None \<Rightarrow>
               Inr (Split (Value (last (filter (\<lambda>m. Name m = TenantLabel cfg) (matchers expr))))
                      (CHR ''|''))
           | Some q \<Rightarrow> Inl (UserNotAllowed q)))"
proof (intro conjI impI)
  show "extractLabelsAndValues (retype f expr) = extractLabelsAndValues expr"
    by (simp add: extractLabelsAndValues_def Inspect_retype)
next
  show "extractLabelsAndValues expr
       = Inr (\<lambda>n. if filter (\<lambda>m. Name m = n) (matchers expr) = [] then None
                   else Some (Value (last (filter (\<lambda>m. Name m = n) (matchers expr)))))"
    unfolding extractLabelsAndValues_def sum.inject
    by (rule ext) (rule Inspect_tenant)
next
  assume "filter (\<lambda>m. Name m = TenantLabel cfg) (matchers expr) \<noteq> []"
  then have "Inspect expr Map.empty (TenantLabel cfg)
      = Some (Value (last (filter (\<lambda>m. Name m = TenantLabel cfg) (matchers expr))))"
    by (simp add: Inspect_tenant)
  then show "(case extractLabelsAndValues expr of
           Inl err \<Rightarrow> Inl err
         | Inr l \<Rightarrow> enforceLabels cfg l tls)
        = (case find (\<lambda>q. q \<notin> fst ` set tls)
                  (Split (Value (last (filter (\<lambda>m. Name m = TenantLabel cfg) (matchers expr))))
                     (CHR ''|'')) of
             None \<Rightarrow>
               Inr (Split (Value (last (filter (\<lambda>m. Name m = TenantLabel cfg) (matchers expr))))
                      (CHR ''|''))
           | Some q \<Rightarrow> Inl (UserNotAllowed q))"
    by (simp add: extractLabelsAndValues_def enforceLabels_present)
qed

theorem subset_check_type_blind_last_wins_witness:
  "filter (\<lambda>m. Name m = TenantLabel exampleCfg) (matchers exampleSum) \<noteq> []
   \<and> (case extractLabelsAndValues exampleSum of
         Inl err \<Rightarrow> Inl err
       | Inr l \<Rightarrow> enforceLabels exampleCfg l [(''b'', True), (''c'', True)])
      = Inr [''c'', ''b'']"
proof -
  have present: "filter (\<lambda>m. Name m = TenantLabel exampleCfg) (matchers exampleSum) \<noteq> []"
    by (simp add: exampleCfg_def exampleSum_def)
  note check = subset_check_type_blind_last_wins
    [of "\<lambda>m. MatchEqual" exampleSum exampleCfg "[(''b'', True), (''c'', True)]",
     THEN conjunct2, THEN conjunct2, THEN mp, OF present]
  have "last (filter (\<lambda>m. Name m = TenantLabel exampleCfg) (matchers exampleSum))
      = \<lparr>Name = ''namespace'', Type = MatchRegexp, Value = ''c|b''\<rparr>"
    by (simp add: exampleCfg_def exampleSum_def)
  with check present show ?thesis
    by simp
qed

section \<open>The enforcement matcher\<close>

lemma enforceLabels_absent:
  "l (TenantLabel cfg) = None \<Longrightarrow> enforceLabels cfg l tls = Inr (map fst tls)"
  by (simp add: enforceLabels_def MapKeysToArray_def)

lemma enforceLabels_Inr:
  "enforceLabels cfg l tls = Inr ts \<Longrightarrow>
   (case l (TenantLabel cfg) of
      Some v \<Rightarrow> ts = Split v (CHR ''|'') \<and> set ts \<subseteq> fst ` set tls
    | None \<Rightarrow> ts = map fst tls)"
  by (auto simp: enforceLabels_present enforceLabels_absent find_None_iff
      split: option.splits)

text \<open>
  C4, as stated, fails: for the inbound value \<^verbatim>\<open>b|a\<close> and the tenants a and b the
  effective list is b, a, and the value of the matcher is \<^verbatim>\<open>b|a\<close>, which is not the
  join of the sorted members.
\<close>

theorem enforcement_value_not_sorted:
  "enforceLabels exampleCfg [''namespace'' \<mapsto> ''b|a''] [(''a'', True), (''b'', True)]
     = Inr [''b'', ''a'']
   \<and> labelMatcher (createEnforcer exampleCfg [''b'', ''a''])
     = \<lparr>Name = ''namespace'', Type = MatchRegexp, Value = ''b|a''\<rparr>
   \<and> Value (labelMatcher (createEnforcer exampleCfg [''b'', ''a'']))
     \<noteq> Join (sort [''b'', ''a'']) ''|''"
  by (simp add: enforceLabels_def checkLabels_def createEnforcer_def exampleCfg_def)

text \<open>
  C4, amended. For a query that carries a tenant matcher the outcome does not depend on
  the order in which the tenant map is iterated, and the matcher built has the inbound
  value itself, its members joined by \<open>|\<close> in the order they were written, as a regex
  match when there is more than one member and as an equal match when there is one.
  For a query without tenant matcher the value is the join of the keys in the order
  \<^verbatim>\<open>MapKeysToArray\<close> returns them, a regex match for more than one key and an equal match
  otherwise. Nothing is sorted.
\<close>

theorem enforcement_value_in_given_order:
  "(l (TenantLabel cfg) = Some v \<longrightarrow> fst ` set tls = fst ` set tls' \<longrightarrow>
      enforceLabels cfg l tls = enforceLabels cfg l tls')
   \<and> (l (TenantLabel cfg) = Some v \<longrightarrow> enforceLabels cfg l tls = Inr ts \<longrightarrow>
      ts = Split v (CHR ''|'')
      \<and> labelMatcher (createEnforcer cfg ts)
          = \<lparr>Name = TenantLabel cfg,
             Type = (if length (Split v (CHR ''|'')) > 1 then MatchRegexp else MatchEqual),
             Value = v\<rparr>)
   \<and> (l (TenantLabel cfg) = None \<longrightarrow>
      enforceLabels cfg l tls = Inr (map fst tls)
      \<and> labelMatcher (createEnforcer cfg (map fst tls))
          = \<lparr>Name = TenantLabel cfg,
             Type = (if length tls > 1 then MatchRegexp else MatchEqual),
             Value = Join (map fst tls) ''|''\<rparr>)"
proof (intro conjI impI)
  assume "l (TenantLabel cfg) = Some v" and "fst ` set tls = fst ` set tls'"
  then show "enforceLabels cfg l tls = enforceLabels cfg l tls'"
    by (simp add: enforceLabels_present)
next
  assume present: "l (TenantLabel cfg) = Some v" and ok: "enforceLabels cfg l tls = Inr ts"
  from enforceLabels_Inr [OF ok] present show ts: "ts = Split v (CHR ''|'')"
    by simp
  show "labelMatcher (createEnforcer cfg ts)
          = \<lparr>Name = TenantLabel cfg,
             Type = (if length (Split v (CHR ''|'')) > 1 then MatchRegexp else MatchEqual),
             Value = v\<rparr>"
    using Join_Split [of v "CHR ''|''"] by (simp add: createEnforcer_def ts)
next
  assume absent: "l (TenantLabel cfg) = None"
  then show "enforceLabels cfg l tls = Inr (map fst tls)"
    by (rule enforceLabels_absent)
  show "labelMatcher (createEnforcer cfg (map fst tls))
          = \<lparr>Name = TenantLabel cfg,
             Type = (if length tls > 1 then MatchRegexp else MatchEqual),
             Value = Join (map fst tls) ''|''\<rparr>"
    by (simp add: createEnforcer_def)
qed

theorem enforcement_value_in_given_order_witness:
  "[''namespace'' \<mapsto> ''b|a''] (TenantLabel exampleCfg) = Some ''b|a''
   \<and> fst ` set [(''a'', True), (''b'', True)] = fst ` set [(''b'', False), (''a'', True)]
   \<and> enforceLabels exampleCfg [''namespace'' \<mapsto> ''b|a''] [(''a'', True), (''b'', True)]
      = Inr [''b'', ''a'']
   \<and> enforceLabels exampleCfg [''namespace'' \<mapsto> ''b|a''] [(''b'', False), (''a'', True)]
      = Inr [''b'', ''a'']
   \<and> labelMatcher (createEnforcer exampleCfg [''b'', ''a''])
      = \<lparr>Name = ''namespace'', Type = MatchRegexp, Value = ''b|a''\<rparr>
   \<and> Map.empty (TenantLabel exampleCfg) = (None :: string option)
   \<and> enforceLabels exampleCfg Map.empty [(''b'', False), (''a'', True)] = Inr [''b'', ''a'']"
  using enforcement_value_in_given_order
    [of "[''namespace'' \<mapsto> ''b|a'']" exampleCfg "''b|a''" "[(''a'', True), (''b'', True)]"
        "[(''b'', False), (''a'', True)]" "[''b'', ''a'']"]
    enforcement_value_in_given_order
    [of Map.empty exampleCfg "''b|a''" "[(''b'', False), (''a'', True)]"
        "[(''b'', False), (''a'', True)]" "[''b'', ''a'']"]
  by (simp add: exampleCfg_def enforceLabels_def checkLabels_def insert_commute)
section \<open>Rewriting twice\<close>












section \<open>The rewrite of a query that carries a tenant matcher\<close>

lemma EnforceTargets_eq:
  "EnforceTargets ms targets
     = (case find (\<lambda>t. errorOnReplace ms \<and> labelMatcher ms \<noteq> t)
               (filter (\<lambda>t. Name t = Name (labelMatcher ms)) targets) of
          Some t \<Rightarrow> Inl (IllegalLabelMatcher (labelMatcher ms) t)
        | None \<Rightarrow> Inr (filter (\<lambda>t. Name t \<noteq> Name (labelMatcher ms)) targets))"
  by (induction targets) (auto split: option.splits)

lemma isl_EnforceMatchers:
  "isl (EnforceMatchers ms targets)
     \<longleftrightarrow> (\<exists>t \<in> set targets. Name t = Name (labelMatcher ms) \<and> errorOnReplace ms
                               \<and> t \<noteq> labelMatcher ms)"
proof -
  have "isl (EnforceMatchers ms targets)
      \<longleftrightarrow> find (\<lambda>t. errorOnReplace ms \<and> labelMatcher ms \<noteq> t)
            (filter (\<lambda>t. Name t = Name (labelMatcher ms)) targets) \<noteq> None"
    by (simp add: EnforceMatchers_def EnforceTargets_eq split: option.splits)
  then show ?thesis
    by (auto simp: find_None_iff)
qed

lemma isl_EnforceNode:
  "isl (EnforceNode ms expr)
     \<longleftrightarrow> (\<exists>t \<in> set (matchers expr). Name t = Name (labelMatcher ms) \<and> errorOnReplace ms
                                      \<and> t \<noteq> labelMatcher ms)"
  "isl (EnforceNodes ms exprs)
     \<longleftrightarrow> (\<exists>t \<in> set (concat (map matchers exprs)). Name t = Name (labelMatcher ms)
                                      \<and> errorOnReplace ms \<and> t \<noteq> labelMatcher ms)"
proof (induction ms expr and ms exprs rule: EnforceNode_EnforceNodes.induct)
  case (1 ms lms)
  have "isl (EnforceNode ms (VectorSelector lms)) = isl (EnforceMatchers ms lms)"
    by (simp split: sum.splits)
  then show ?case
    by (simp add: isl_EnforceMatchers)
next
  case (2 ms k cs)
  have "isl (EnforceNode ms (Node k cs)) = isl (EnforceNodes ms cs)"
    by (simp split: sum.splits)
  with 2 show ?case
    by simp
next
  case (3 ms)
  show ?case by simp
next
  case (4 ms c cs)
  show ?case
  proof (cases "EnforceNode ms c")
    case (Inl err)
    with "4.IH"(1) show ?thesis
      by auto
  next
    case (Inr c')
    then have "isl (EnforceNodes ms (c # cs)) = isl (EnforceNodes ms cs)"
      by (simp split: sum.splits)
    moreover from Inr "4.IH"(1) have "\<not> (\<exists>t \<in> set (matchers c). Name t = Name (labelMatcher ms)
        \<and> errorOnReplace ms \<and> t \<noteq> labelMatcher ms)"
      by simp
    ultimately show ?thesis
      using "4.IH"(2) [OF Inr] by auto
  qed
qed

lemma promqlEnforcer_parsed:
  assumes "ParseExpr query = Inr expr"
    and "filter (\<lambda>m. Name m = TenantLabel cfg) (matchers expr) \<noteq> []"
  shows "promqlEnforcer ParseExpr String cfg query tls
     = (case find (\<lambda>q. q \<notin> fst ` set tls)
               (Split (Value (last (filter (\<lambda>m. Name m = TenantLabel cfg) (matchers expr))))
                  (CHR ''|'')) of
          Some q \<Rightarrow> Inl (UserNotAllowed q)
        | None \<Rightarrow>
            (case EnforceNode
                    (createEnforcer cfg
                       (Split (Value (last (filter (\<lambda>m. Name m = TenantLabel cfg)
                                              (matchers expr)))) (CHR ''|''))) expr of
               Inl err \<Rightarrow> Inl err
             | Inr expr' \<Rightarrow> Inr (String expr')))"
proof -
  from assms(2) have "Inspect expr Map.empty (TenantLabel cfg)
      = Some (Value (last (filter (\<lambda>m. Name m = TenantLabel cfg) (matchers expr))))"
    by (simp add: Inspect_tenant)
  with assms(1) show ?thesis
    by (simp add: promqlEnforcer_def extractLabelsAndValues_def enforceLabels_present
        split: option.splits)
qed

text \<open>
  C1, as stated, fails: for the query \<^verbatim>\<open>up{namespace!="a"}\<close> and the one tenant a, every
  member of the inbound set is a member of the tenant set and the subset check accepts
  it, and the rewrite does not succeed: the label enforcer, set to fail on a replacement,
  rejects the matcher of the query, which is not the one to be enforced.
\<close>

theorem rewrite_fails_on_accepted_subset:
  "exampleParseExpr exampleNotEqual
     = Inr (VectorSelector
              [\<lparr>Name = ''namespace'', Type = MatchNotEqual, Value = ''a''\<rparr>,
               \<lparr>Name = ''__name__'', Type = MatchEqual, Value = ''up''\<rparr>])
   \<and> (case extractLabelsAndValues
             (VectorSelector
                [\<lparr>Name = ''namespace'', Type = MatchNotEqual, Value = ''a''\<rparr>,
                 \<lparr>Name = ''__name__'', Type = MatchEqual, Value = ''up''\<rparr>]) of
         Inl err \<Rightarrow> Inl err
       | Inr l \<Rightarrow> enforceLabels exampleCfg l [(''a'', True)]) = Inr [''a'']
   \<and> promqlEnforcer exampleParseExpr exampleString exampleCfg exampleNotEqual [(''a'', True)]
     = Inl (IllegalLabelMatcher
              \<lparr>Name = ''namespace'', Type = MatchEqual, Value = ''a''\<rparr>
              \<lparr>Name = ''namespace'', Type = MatchNotEqual, Value = ''a''\<rparr>)"
  by (simp add: promqlEnforcer_def exampleParseExpr_def exampleQueries_def
      exampleUp_def exampleRewritten_def exampleBar_def exampleNotEqual_def exampleCfg_def
      extractLabelsAndValues_def storeMatcher_def enforceLabels_def checkLabels_def
      createEnforcer_def EnforceMatchers_def)

text \<open>
  C1, amended. For every query that carries a matcher on the tenant label and every
  tenant set: the value of the last such matcher visited is split on \<open>|\<close> into the
  inbound set. When a member of it is not in the tenant set, the rewrite returns the
  error that names the first such member. When all are, the inbound set, all of it, is
  the effective tenant set, and the rewrite is the label enforcer's run with the matcher
  built from it. The rewrite succeeds exactly when the inbound set is within the tenant
  set and every matcher of the query on the tenant label is that matcher: the tenant
  label, the inbound value, regex match for more than one member and equality for one.
\<close>

theorem promqlEnforcer_tenant_check:
  assumes parsed: "ParseExpr query = Inr expr"
    and present: "filter (\<lambda>m. Name m = TenantLabel cfg) (matchers expr) \<noteq> []"
  shows
    "(let fs = filter (\<lambda>m. Name m = TenantLabel cfg) (matchers expr);
          v = Value (last fs);
          Q = Split v (CHR ''|'')
      in promqlEnforcer ParseExpr String cfg query tls
           = (case find (\<lambda>q. q \<notin> fst ` set tls) Q of
                Some q \<Rightarrow> Inl (UserNotAllowed q)
              | None \<Rightarrow>
                  (case EnforceNode (createEnforcer cfg Q) expr of
                     Inl err \<Rightarrow> Inl err
                   | Inr expr' \<Rightarrow> Inr (String expr')))
         \<and> (\<not> isl (promqlEnforcer ParseExpr String cfg query tls)
              \<longleftrightarrow> set Q \<subseteq> fst ` set tls
                  \<and> (\<forall>t \<in> set fs.
                        t = \<lparr>Name = TenantLabel cfg,
                             Type = (if length Q > 1 then MatchRegexp else MatchEqual),
                             Value = v\<rparr>)))"
proof -
  let ?fs = "filter (\<lambda>m. Name m = TenantLabel cfg) (matchers expr)"
  let ?v = "Value (last ?fs)"
  let ?Q = "Split ?v (CHR ''|'')"
  let ?m = "\<lparr>Name = TenantLabel cfg,
             Type = (if length ?Q > 1 then MatchRegexp else MatchEqual), Value = ?v\<rparr>"
  note eq = promqlEnforcer_parsed
    [where ParseExpr = ParseExpr and query = query and String = String and tls = tls,
     OF parsed present]
  have m: "labelMatcher (createEnforcer cfg ?Q) = ?m"
    using Join_Split [of ?v "CHR ''|''"] by (simp add: createEnforcer_def)
  have on: "errorOnReplace (createEnforcer cfg ?Q)"
    by (simp add: createEnforcer_def)
  have enforce: "\<not> isl (EnforceNode (createEnforcer cfg ?Q) expr) \<longleftrightarrow> (\<forall>t \<in> set ?fs. t = ?m)"
    unfolding isl_EnforceNode(1) m using on by auto
  have "\<not> isl (promqlEnforcer ParseExpr String cfg query tls)
      \<longleftrightarrow> set ?Q \<subseteq> fst ` set tls \<and> (\<forall>t \<in> set ?fs. t = ?m)"
  proof (cases "find (\<lambda>q. q \<notin> fst ` set tls) ?Q")
    case None
    then have "set ?Q \<subseteq> fst ` set tls"
      by (auto simp: find_None_iff)
    moreover from None eq have "isl (promqlEnforcer ParseExpr String cfg query tls)
        = isl (EnforceNode (createEnforcer cfg ?Q) expr)"
      by (simp split: sum.splits)
    ultimately show ?thesis
      using enforce by simp
  next
    case (Some q)
    then have "find (\<lambda>q. q \<notin> fst ` set tls) ?Q \<noteq> None"
      by simp
    then have "\<not> set ?Q \<subseteq> fst ` set tls"
      unfolding find_None_iff by blast
    moreover from Some eq have "isl (promqlEnforcer ParseExpr String cfg query tls)"
      by simp
    ultimately show ?thesis
      by simp
  qed
  with eq show ?thesis
    by (simp add: Let_def)
qed

theorem promqlEnforcer_tenant_check_witness:
  "exampleParseExpr exampleRewritten
     = Inr (VectorSelector
              [\<lparr>Name = ''namespace'', Type = MatchRegexp, Value = ''team-a|team-b''\<rparr>,
               \<lparr>Name = ''__name__'', Type = MatchEqual, Value = ''up''\<rparr>])
   \<and> filter (\<lambda>m. Name m = TenantLabel exampleCfg)
        (matchers (VectorSelector
              [\<lparr>Name = ''namespace'', Type = MatchRegexp, Value = ''team-a|team-b''\<rparr>,
               \<lparr>Name = ''__name__'', Type = MatchEqual, Value = ''up''\<rparr>])) \<noteq> []
   \<and> promqlEnforcer exampleParseExpr exampleString exampleCfg exampleRewritten
        [(''team-a'', True), (''team-b'', True), (''team-c'', True)] = Inr exampleRewritten
   \<and> promqlEnforcer exampleParseExpr exampleString exampleCfg exampleRewritten
        [(''team-a'', True), (''team-c'', True)] = Inl (UserNotAllowed ''team-b'')"
proof -
  let ?expr = "VectorSelector
              [\<lparr>Name = ''namespace'', Type = MatchRegexp, Value = ''team-a|team-b''\<rparr>,
               \<lparr>Name = ''__name__'', Type = MatchEqual, Value = ''up''\<rparr>]"
  have parsed: "exampleParseExpr exampleRewritten = Inr ?expr"
    by (simp add: exampleParseExpr_def exampleQueries_def exampleRewritten_def)
  have present: "filter (\<lambda>m. Name m = TenantLabel exampleCfg) (matchers ?expr) \<noteq> []"
    by (simp add: exampleCfg_def)
  have printed: "exampleString (VectorSelector
              [\<lparr>Name = ''__name__'', Type = MatchEqual, Value = ''up''\<rparr>,
               \<lparr>Name = ''namespace'', Type = MatchRegexp, Value = ''team-a|team-b''\<rparr>])
      = exampleRewritten"
    by (simp add: isMetricName_def matcherString_def exampleRewritten_def)
  have accepted: "promqlEnforcer exampleParseExpr exampleString exampleCfg exampleRewritten
        [(''team-a'', True), (''team-b'', True), (''team-c'', True)] = Inr exampleRewritten"
    using promqlEnforcer_tenant_check
      [where ParseExpr = exampleParseExpr and query = exampleRewritten
         and String = exampleString
         and tls = "[(''team-a'', True), (''team-b'', True), (''team-c'', True)]",
       OF parsed present] printed
    by (simp add: Let_def exampleCfg_def createEnforcer_def EnforceMatchers_def)
  have rejected: "promqlEnforcer exampleParseExpr exampleString exampleCfg exampleRewritten
        [(''team-a'', True), (''team-c'', True)] = Inl (UserNotAllowed ''team-b'')"
    using promqlEnforcer_tenant_check
      [where ParseExpr = exampleParseExpr and query = exampleRewritten
         and String = exampleString and tls = "[(''team-a'', True), (''team-c'', True)]",
       OF parsed present]
    by (simp add: Let_def exampleCfg_def)
  from parsed present accepted rejected show ?thesis
    by simp
qed
section \<open>Rewriting the output again\<close>









end
